theory Spec2Isabelle
  imports Complex_Main "HOL-Library.Sublist"
begin

section \<open>Data model of \<open>src/src/App.tsx\<close>\<close>

text \<open>
  The file holds two revisions of the component, one after the other; line numbers are those of
  the file, and they point into the later revision unless said otherwise.

  \<open>type BingoCell = { question: string; checked: boolean }\<close> and
  \<open>type Question = { id: number; question: string }\<close>.  The two TypeScript types share the
  field name \<open>question\<close>; the catalog entry's fields carry the prefix \<open>q_\<close>.
\<close>

record BingoCell =
  question :: string
  checked :: bool

record Question =
  q_id :: int
  q_question :: string

text \<open>A board is \<open>BingoCell[][]\<close>: an array of rows, of whatever lengths.\<close>

type_synonym Board = "BingoCell list list"

text \<open>
  Reading a property of \<open>undefined\<close> or \<open>null\<close>, and calling something that is not a
  function, throw a \<open>TypeError\<close>.
\<close>

datatype error = TypeError

section \<open>Array primitives\<close>

text \<open>\<open>xs[i]\<close>: an index outside the array reads \<open>undefined\<close>, here \<open>None\<close>.\<close>

definition js_index :: "'a list \<Rightarrow> int \<Rightarrow> 'a option" where
  "js_index xs i = (if 0 \<le> i \<and> i < int (length xs) then Some (xs ! nat i) else None)"

text \<open>
  \<open>xs.every(p)\<close>: stops at the first element whose test is false; a test that throws ends the
  call with that exception.  The callback's index argument is supplied by pairing the elements
  with their positions (\<open>enumerate 0 xs\<close>).
\<close>

fun every :: "('a \<Rightarrow> error + bool) \<Rightarrow> 'a list \<Rightarrow> error + bool" where
  "every p [] = Inr True"
| "every p (x # xs) =
     (case p x of
        Inl e \<Rightarrow> Inl e
      | Inr ok \<Rightarrow> if ok then every p xs else Inr False)"

text \<open>
  \<open>for (let i = 0; i < 5; i++) { if (test(i)) return true; }\<close>, run over the indices it
  visits: \<open>Inr True\<close> is the early return, \<open>Inr False\<close> is falling out of the loop.
\<close>

fun for_return_true :: "(nat \<Rightarrow> error + bool) \<Rightarrow> nat list \<Rightarrow> error + bool" where
  "for_return_true test [] = Inr False"
| "for_return_true test (i # rest) =
     (case test i of
        Inl e \<Rightarrow> Inl e
      | Inr hit \<Rightarrow> if hit then Inr True else for_return_true test rest)"

section \<open>Win detector\<close>

text \<open>\<open>row[j].checked\<close>: throws when \<open>row[j]\<close> is \<open>undefined\<close>.\<close>

definition checked_at :: "BingoCell list \<Rightarrow> int \<Rightarrow> error + bool" where
  "checked_at row j =
     (case js_index row j of None \<Rightarrow> Inl TypeError | Some cell \<Rightarrow> Inr (checked cell))"

text \<open>\<open>board[i].every((cell) => cell.checked)\<close>: throws when \<open>board[i]\<close> is \<open>undefined\<close>.\<close>

definition row_checked :: "Board \<Rightarrow> nat \<Rightarrow> error + bool" where
  "row_checked board i =
     (case js_index board (int i) of
        None \<Rightarrow> Inl TypeError
      | Some r \<Rightarrow> every (\<lambda>cell. Inr (checked cell)) r)"

text \<open>\<open>isBingo\<close> of the later revision (lines 473-486).\<close>

definition isBingo :: "Board \<Rightarrow> error + bool" where
  "isBingo board =
     (case for_return_true (row_checked board) [0..<5] of
        Inl e \<Rightarrow> Inl e
      | Inr rows \<Rightarrow>
          if rows then Inr True
          else (case for_return_true (\<lambda>j. every (\<lambda>row. checked_at row (int j)) board) [0..<5] of
                  Inl e \<Rightarrow> Inl e
                | Inr cols \<Rightarrow>
                    if cols then Inr True
                    else (case every (\<lambda>(idx, row). checked_at row (int idx)) (enumerate 0 board) of
                            Inl e \<Rightarrow> Inl e
                          | Inr diag \<Rightarrow>
                              if diag then Inr True
                              else (case every (\<lambda>(idx, row). checked_at row (4 - int idx))
                                           (enumerate 0 board) of
                                      Inl e \<Rightarrow> Inl e
                                    | Inr anti \<Rightarrow> if anti then Inr True else Inr False))))"

text \<open>\<open>isBingo\<close> of the earlier revision (lines 101-114).\<close>

definition isBingo_rev1 :: "Board \<Rightarrow> error + bool" where
  "isBingo_rev1 board =
     (case for_return_true (row_checked board) [0..<5] of
        Inl e \<Rightarrow> Inl e
      | Inr rows \<Rightarrow>
          if rows then Inr True
          else (case for_return_true (\<lambda>j. every (\<lambda>row. checked_at row (int j)) board) [0..<5] of
                  Inl e \<Rightarrow> Inl e
                | Inr cols \<Rightarrow>
                    if cols then Inr True
                    else (case every (\<lambda>(idx, row). checked_at row (int idx)) (enumerate 0 board) of
                            Inl e \<Rightarrow> Inl e
                          | Inr diag \<Rightarrow>
                              if diag then Inr True
                              else (case every (\<lambda>(idx, row). checked_at row (4 - int idx))
                                           (enumerate 0 board) of
                                      Inl e \<Rightarrow> Inl e
                                    | Inr anti \<Rightarrow> if anti then Inr True else Inr False))))"

section \<open>Board store: initialization\<close>

text \<open>
  What \<open>JSON.parse\<close> returns.  An object is the list of its own properties, each key once,
  read with \<open>map_of\<close>.  The payload of a number is never inspected by the code.
\<close>

datatype json =
    JNull
  | JBool bool
  | JNum real
  | JStr string
  | JArr "json list"
  | JObj "(string \<times> json) list"

text \<open>
  The value of a \<open>BingoCell[][]\<close> as \<open>JSON.stringify\<close> writes it and \<open>JSON.parse\<close>
  reads it back: an array of arrays of \<open>{question, checked}\<close> objects.
\<close>

definition cell_json :: "BingoCell \<Rightarrow> json" where
  "cell_json cell = JObj [(''question'', JStr (question cell)), (''checked'', JBool (checked cell))]"

definition board_json :: "Board \<Rightarrow> json" where
  "board_json b = JArr (map (\<lambda>r. JArr (map cell_json r)) b)"

text \<open>
  \<open>xs.map(f)\<close> and \<open>Array.from({ length: n }, f)\<close> with a callback that may throw: the first
  exception ends the call.
\<close>

fun map_throwing :: "('a \<Rightarrow> error + 'b) \<Rightarrow> 'a list \<Rightarrow> error + 'b list" where
  "map_throwing f [] = Inr []"
| "map_throwing f (x # xs) =
     (case f x of
        Inl e \<Rightarrow> Inl e
      | Inr y \<Rightarrow> (case map_throwing f xs of Inl e \<Rightarrow> Inl e | Inr ys \<Rightarrow> Inr (y # ys)))"

text \<open>\<open>xs.flat()\<close>: one level; an element that is an array is replaced by its elements.\<close>

fun flat :: "json list \<Rightarrow> json list" where
  "flat [] = []"
| "flat (JArr ys # xs) = ys @ flat xs"
| "flat (x # xs) = x # flat xs"

text \<open>
  \<open>cell.question\<close> on a parsed value: throws on \<open>null\<close>, reads the property of an object, and
  is \<open>undefined\<close> (\<open>None\<close>) on a boolean, a number, a string and an array.
\<close>

fun get_question :: "json \<Rightarrow> error + json option" where
  "get_question JNull = Inl TypeError"
| "get_question (JObj props) = Inr (map_of props ''question'')"
| "get_question _ = Inr None"

text \<open>
  \<open>parsed.flat().map((cell) => cell.question)\<close>: only an array has a callable \<open>flat\<close>
  (a parsed object can hold no function), so every other value throws.
\<close>

definition flatSaved :: "json \<Rightarrow> error + json option list" where
  "flatSaved parsed =
     (case parsed of JArr xs \<Rightarrow> map_throwing get_question (flat xs) | _ \<Rightarrow> Inl TypeError)"

text \<open>
  \<open>flatQuestions.every((q, i) => q === flatSaved[i])\<close>: strict equality of the string \<open>q\<close> with
  the i-th saved value, which is \<open>undefined\<close> past the end of \<open>flatSaved\<close>.
\<close>

definition questions_match :: "string list \<Rightarrow> json option list \<Rightarrow> bool" where
  "questions_match flatQuestions fs =
     list_all (\<lambda>(i, q). js_index fs (int i) = Some (Some (JStr q))) (enumerate 0 flatQuestions)"

text \<open>
  The fallback (lines 401-406): \<open>questionsData[row * 5 + col].question\<close> throws when the
  catalog has no such entry.
\<close>

definition fresh_cell :: "Question list \<Rightarrow> nat \<Rightarrow> nat \<Rightarrow> error + BingoCell" where
  "fresh_cell questionsData row col =
     (case js_index questionsData (int (row * 5 + col)) of
        None \<Rightarrow> Inl TypeError
      | Some q \<Rightarrow> Inr \<lparr>question = q_question q, checked = False\<rparr>)"

definition fresh_board :: "Question list \<Rightarrow> error + Board" where
  "fresh_board questionsData =
     map_throwing (\<lambda>row. map_throwing (\<lambda>col. fresh_cell questionsData row col) [0..<5]) [0..<5]"

text \<open>
  The guarded part of \<open>getInitialBoard\<close> (lines 384-399): \<open>Some parsed\<close> when the function
  returns from inside the \<open>try\<close>, \<open>None\<close> when control reaches the fallback, which happens
  when the slot is \<open>null\<close> or the empty string (both falsy), when \<open>JSON.parse\<close> throws
  (\<open>None\<close> from the parser), when flattening throws, and when the comparison fails.
\<close>

definition saved_board ::
  "(string \<Rightarrow> json option) \<Rightarrow> Question list \<Rightarrow> string option \<Rightarrow> json option" where
  "saved_board JSON_parse questionsData saved =
     (case saved of
        None \<Rightarrow> None
      | Some s \<Rightarrow>
          if s = [] then None
          else (case JSON_parse s of
                  None \<Rightarrow> None
                | Some parsed \<Rightarrow>
                    (case flatSaved parsed of
                       Inl e \<Rightarrow> None
                     | Inr fs \<Rightarrow>
                         if questions_match (map q_question questionsData) fs
                         then Some parsed else None)))"

text \<open>
  \<open>getInitialBoard\<close> (lines 383-407).  The platform's \<open>JSON.parse\<close>, the catalog imported
  from \<open>questions.json\<close> and the content of the storage slot are its parameters.
\<close>

definition getInitialBoard ::
  "(string \<Rightarrow> json option) \<Rightarrow> Question list \<Rightarrow> string option \<Rightarrow> error + json" where
  "getInitialBoard JSON_parse questionsData saved =
     (case saved_board JSON_parse questionsData saved of
        Some parsed \<Rightarrow> Inr parsed
      | None \<Rightarrow>
          (case fresh_board questionsData of Inl e \<Rightarrow> Inl e | Inr b \<Rightarrow> Inr (board_json b)))"

section \<open>Application state and handlers\<close>

text \<open>
  The values held by \<open>useState\<close> in \<open>App\<close> (lines 410-418): the fields of the modal carry
  the prefix \<open>m_\<close>, the state variables the prefix \<open>st_\<close>.  The modal's \<open>row\<close> and
  \<open>col\<close> are numbers, \<open>-1\<close> when no cell is selected.
\<close>

datatype Theme = light | dark

record Modal =
  m_open :: bool
  m_question :: string
  m_row :: int
  m_col :: int

record AppState =
  st_board :: Board
  st_modal :: Modal
  st_search :: string
  st_theme :: Theme

text \<open>\<open>xs.map((x, idx) => f(x, idx))\<close>.\<close>

definition map_index :: "('a \<Rightarrow> nat \<Rightarrow> 'b) \<Rightarrow> 'a list \<Rightarrow> 'b list" where
  "map_index f xs = map (\<lambda>(idx, x). f x idx) (enumerate 0 xs)"

text \<open>The updater passed to \<open>setBoard\<close> (lines 457-465).\<close>

definition toggle_checked :: "int \<Rightarrow> int \<Rightarrow> Board \<Rightarrow> Board" where
  "toggle_checked row col prev =
     map_index
       (\<lambda>r rIdx.
          if int rIdx \<noteq> row then r
          else map_index
                 (\<lambda>cell cIdx. if int cIdx \<noteq> col then cell else cell\<lparr>checked := \<not> checked cell\<rparr>)
                 r)
       prev"

text \<open>\<open>onModalCheckHandler\<close> (lines 455-467).\<close>

definition onModalCheckHandler :: "AppState \<Rightarrow> AppState" where
  "onModalCheckHandler st =
     (if m_row (st_modal st) = - 1 \<or> m_col (st_modal st) = - 1 then st
      else st\<lparr>st_board := toggle_checked (m_row (st_modal st)) (m_col (st_modal st)) (st_board st),
              st_modal := (st_modal st)\<lparr>m_open := False\<rparr>\<rparr>)"

text \<open>\<open>onThemeToggleHandler\<close> (lines 469-471).\<close>

definition onThemeToggleHandler :: "AppState \<Rightarrow> AppState" where
  "onThemeToggleHandler st = st\<lparr>st_theme := (if st_theme st = light then dark else light)\<rparr>"

text \<open>
  The theme is the string literal \<open>"light"\<close> or \<open>"dark"\<close>; the effect of lines 424-426 writes
  it to the slot \<open>THEME_KEY\<close>.  React runs an effect after a render in which one of its
  dependencies, here \<open>theme\<close>, has changed.
\<close>

fun theme_string :: "Theme \<Rightarrow> string" where
  "theme_string light = ''light''"
| "theme_string dark = ''dark''"

definition THEME_KEY :: string where
  "THEME_KEY = ''bingo-theme''"

type_synonym localStorage = "string \<rightharpoonup> string"

definition theme_effect :: "AppState \<Rightarrow> localStorage \<Rightarrow> localStorage" where
  "theme_effect st store = store(THEME_KEY \<mapsto> theme_string (st_theme st))"

text \<open>A click on the theme control: the handler, then the effects of the render it causes.\<close>

definition click_theme_toggle :: "AppState \<times> localStorage \<Rightarrow> AppState \<times> localStorage" where
  "click_theme_toggle p =
     (let st = fst p; store = snd p; st' = onThemeToggleHandler st
      in (st', if st_theme st' = st_theme st then store else theme_effect st' store))"

section \<open>Search filter\<close>

text \<open>\<open>s.includes(t)\<close>: \<open>t\<close> occurs in \<open>s\<close> as a contiguous run.\<close>

fun str_includes :: "string \<Rightarrow> string \<Rightarrow> bool" where
  "str_includes [] t = (t = [])"
| "str_includes (x # xs) t = (prefix t (x # xs) \<or> str_includes xs t)"

text \<open>
  The test of lines 615-621: the cell is rendered unless \<open>searchText\<close> is non-empty (truthy)
  and the folded question does not include it.  \<open>String.prototype.trim\<close> and
  \<open>String.prototype.toLowerCase\<close> are the platform's, passed as parameters.
\<close>

definition isVisible :: "(string \<Rightarrow> string) \<Rightarrow> (string \<Rightarrow> string) \<Rightarrow> string \<Rightarrow> BingoCell \<Rightarrow> bool" where
  "isVisible trim toLowerCase search cell =
     (let searchText = toLowerCase (trim search)
      in \<not> (searchText \<noteq> [] \<and> \<not> str_includes (toLowerCase (question cell)) searchText))"

section \<open>The grid of the fallback, and sample inputs\<close>

text \<open>The grid that the fallback of \<open>getInitialBoard\<close> builds when no catalog entry is missing.\<close>

definition fresh_grid :: "Question list \<Rightarrow> Board" where
  "fresh_grid catalog =
     map (\<lambda>row. map (\<lambda>col. \<lparr>question = q_question (catalog ! (row * 5 + col)), checked = False\<rparr>)
                  [0..<5])
         [0..<5]"

text \<open>A 5x5 board with empty question texts whose checked flags are given by \<open>marks\<close>.\<close>

definition example_board :: "(nat \<Rightarrow> nat \<Rightarrow> bool) \<Rightarrow> Board" where
  "example_board marks =
     map (\<lambda>i. map (\<lambda>j. \<lparr>question = [], checked = marks i j\<rparr>) [0..<5]) [0..<5]"

definition row2_board :: Board where
  "row2_board = example_board (\<lambda>i j. i = 2)"

text \<open>A catalog of 25 distinct questions, and a parser that knows one stored text.\<close>

definition example_catalog :: "Question list" where
  "example_catalog =
     map (\<lambda>i. \<lparr>q_id = int i, q_question = replicate (Suc i) CHR ''q''\<rparr>) [0..<25]"

definition example_parse :: "json \<Rightarrow> string \<Rightarrow> json option" where
  "example_parse v s = (if s = ''saved'' then Some v else None)"

text \<open>The fresh grid of the sample catalog followed by a sixth row of one cell.\<close>

definition extra_row_board :: Board where
  "extra_row_board = fresh_grid example_catalog @ [[\<lparr>question = ''extra'', checked = True\<rparr>]]"

text \<open>The fresh grid of the sample catalog with a sixth cell at the end of its last row.\<close>

definition extra_cell_board :: Board where
  "extra_cell_board =
     butlast (fresh_grid example_catalog)
     @ [last (fresh_grid example_catalog) @ [\<lparr>question = ''extra'', checked = True\<rparr>]]"

text \<open>The fresh grid of the sample catalog with every cell checked.\<close>

definition checked_grid :: Board where
  "checked_grid = map (map (\<lambda>cell. cell\<lparr>checked := True\<rparr>)) (fresh_grid example_catalog)"

text \<open>
  The modal as \<open>useState\<close> creates it and as \<open>onModalCloseHandler\<close> resets it (no cell
  selected), the modal after a click on the cell (0,0), and an application state around a board
  and a modal.
\<close>

definition closed_modal :: Modal where
  "closed_modal = \<lparr>m_open = False, m_question = [], m_row = - 1, m_col = - 1\<rparr>"

definition corner_modal :: Modal where
  "corner_modal = \<lparr>m_open = True, m_question = [], m_row = 0, m_col = 0\<rparr>"

definition example_state :: "Board \<Rightarrow> Modal \<Rightarrow> AppState" where
  "example_state b m = \<lparr>st_board = b, st_modal = m, st_search = [], st_theme = light\<rparr>"

text \<open>
  An instance of the platform's string functions on ASCII text: lower-casing of the letters
  A-Z, and trimming of the six ASCII white-space characters.
\<close>

definition ascii_toLowerCase :: "string \<Rightarrow> string" where
  "ascii_toLowerCase =
     map (\<lambda>c. case map_of (zip ''ABCDEFGHIJKLMNOPQRSTUVWXYZ'' ''abcdefghijklmnopqrstuvwxyz'') c of
                 None \<Rightarrow> c
               | Some l \<Rightarrow> l)"

definition ascii_space :: "char \<Rightarrow> bool" where
  "ascii_space c \<longleftrightarrow> c \<in> set [CHR '' '', CHR 0x09, CHR 0x0A, CHR 0x0B, CHR 0x0C, CHR 0x0D]"

definition ascii_trim :: "string \<Rightarrow> string" where
  "ascii_trim s = rev (dropWhile ascii_space (rev (dropWhile ascii_space s)))"

section \<open>Properties of the array primitives\<close>

lemma every_total:
  "(\<And>x. x \<in> set xs \<Longrightarrow> p x = Inr (q x)) \<Longrightarrow> every p xs = Inr (list_all q xs)"
  by (induction xs) simp_all

lemma for_return_true_total:
  "(\<And>i. i \<in> set ixs \<Longrightarrow> test i = Inr (q i)) \<Longrightarrow> for_return_true test ixs = Inr (list_ex q ixs)"
  by (induction ixs) simp_all

lemma map_throwing_total:
  "(\<And>x. x \<in> set xs \<Longrightarrow> f x = Inr (g x)) \<Longrightarrow> map_throwing f xs = Inr (map g xs)"
  by (induction xs) simp_all

lemma list_all_enumerate:
  "list_all (\<lambda>(i, x). P i x) (enumerate 0 xs) \<longleftrightarrow> (\<forall>i<length xs. P i (xs ! i))"
  by (simp add: enumerate_eq_zip list_all_length)

lemma every_enumerate:
  assumes "\<And>i. i < length xs \<Longrightarrow> p (i, xs ! i) = Inr (q i)"
  shows "every p (enumerate 0 xs) = Inr (\<forall>i<length xs. q i)"
proof -
  have "every p (enumerate 0 xs) = Inr (list_all (\<lambda>(i, x). q i) (enumerate 0 xs))"
    by (rule every_total) (auto simp: in_set_enumerate_eq assms)
  also have "list_all (\<lambda>(i, x). q i) (enumerate 0 xs) \<longleftrightarrow> (\<forall>i<length xs. q i)"
    by (simp add: list_all_enumerate)
  finally show ?thesis .
qed

lemma map_index_length [simp]: "length (map_index f xs) = length xs"
  by (simp add: map_index_def)

lemma map_index_nth [simp]: "i < length xs \<Longrightarrow> map_index f xs ! i = f (xs ! i) i"
  by (simp add: map_index_def nth_enumerate_eq)

text \<open>Flattening a grid given row by row yields the cells in row-major order.\<close>

lemma concat_grid:
  "concat (map (\<lambda>row. map (\<lambda>col. f (row * n + col)) [0..<n]) [0..<m]) = map f [0..<m * n]"
proof (induction m)
  case 0
  show ?case by simp
next
  case (Suc m)
  have "map (\<lambda>col. f (m * n + col)) [0..<n] = map f (map (\<lambda>col. col + m * n) [0..<n])"
    by (simp only: map_map comp_def add.commute[of "m * n"])
  also have "\<dots> = map f [m * n..<n + m * n]"
    by (simp only: map_add_upt)
  finally have row: "map (\<lambda>col. f (m * n + col)) [0..<n] = map f [m * n..<n + m * n]" .
  have "[0..<Suc m * n] = [0..<m * n] @ [m * n..<n + m * n]"
    using upt_add_eq_append[of 0 "m * n" n] by (simp only: mult_Suc add.commute[of n] le0 add_0)
  then show ?case
    using Suc row
    by (simp only: upt_Suc_append le0 if_True map_append concat_append concat.simps list.map
          append_Nil2)
qed

section \<open>Properties of the win detector\<close>

lemma checked_at_in: "j < length row \<Longrightarrow> checked_at row (int j) = Inr (checked (row ! j))"
  by (simp add: checked_at_def js_index_def)

lemma row_checked_in:
  "i < length board \<Longrightarrow> row_checked board i = Inr (list_all checked (board ! i))"
  by (simp add: row_checked_def js_index_def every_total)

lemma rows_loop:
  assumes "length board = 5"
  shows "for_return_true (row_checked board) [0..<5]
         = Inr (\<exists>i<5. \<forall>j<length (board ! i). checked (board ! i ! j))"
proof -
  have "for_return_true (row_checked board) [0..<5]
        = Inr (list_ex (\<lambda>i. list_all checked (board ! i)) [0..<5])"
    by (rule for_return_true_total) (simp add: row_checked_in assms)
  also have "list_ex (\<lambda>i. list_all checked (board ! i)) [0..<5]
      \<longleftrightarrow> (\<exists>i<5. \<forall>j<length (board ! i). checked (board ! i ! j))"
    unfolding list_ex_iff list_all_length by auto
  finally show ?thesis .
qed

lemma cols_loop:
  assumes "\<And>r. r \<in> set board \<Longrightarrow> length r = 5"
  shows "for_return_true (\<lambda>j. every (\<lambda>row. checked_at row (int j)) board) [0..<5]
         = Inr (\<exists>j<5. \<forall>i<length board. checked (board ! i ! j))"
proof -
  have col: "every (\<lambda>row. checked_at row (int j)) board
             = Inr (list_all (\<lambda>row. checked (row ! j)) board)" if "j < 5" for j
    by (rule every_total) (simp add: checked_at_in assms that)
  have "for_return_true (\<lambda>j. every (\<lambda>row. checked_at row (int j)) board) [0..<5]
        = Inr (list_ex (\<lambda>j. list_all (\<lambda>row. checked (row ! j)) board) [0..<5])"
    by (rule for_return_true_total) (simp add: col)
  also have "list_ex (\<lambda>j. list_all (\<lambda>row. checked (row ! j)) board) [0..<5]
      \<longleftrightarrow> (\<exists>j<5. \<forall>i<length board. checked (board ! i ! j))"
    unfolding list_ex_iff list_all_length by auto
  finally show ?thesis .
qed

lemma main_diagonal:
  assumes "length board = 5" "\<And>r. r \<in> set board \<Longrightarrow> length r = 5"
  shows "every (\<lambda>(idx, row). checked_at row (int idx)) (enumerate 0 board)
         = Inr (\<forall>i<5. checked (board ! i ! i))"
  using every_enumerate[of board "\<lambda>(idx, row). checked_at row (int idx)"
      "\<lambda>i. checked (board ! i ! i)"]
  by (simp add: assms checked_at_in)

lemma anti_diagonal:
  assumes "length board = 5" "\<And>r. r \<in> set board \<Longrightarrow> length r = 5"
  shows "every (\<lambda>(idx, row). checked_at row (4 - int idx)) (enumerate 0 board)
         = Inr (\<forall>i<5. checked (board ! i ! (4 - i)))"
proof -
  have "checked_at (board ! i) (4 - int i) = Inr (checked (board ! i ! (4 - i)))" if "i < 5" for i
  proof -
    have eq: "4 - int i = int (4 - i)" using that by simp
    have "length (board ! i) = 5" using that assms by simp
    then have "checked_at (board ! i) (int (4 - i)) = Inr (checked (board ! i ! (4 - i)))"
      by (intro checked_at_in) simp
    then show ?thesis by (simp only: eq)
  qed
  then show ?thesis
    using every_enumerate[of board "\<lambda>(idx, row). checked_at row (4 - int idx)"
        "\<lambda>i. checked (board ! i ! (4 - i))"]
    by (simp add: assms)
qed

section \<open>Properties of initialization\<close>

lemma flat_rows: "flat (map (\<lambda>r. JArr (f r)) b) = concat (map f b)"
  by (induction b) simp_all

lemma get_question_cell: "get_question (cell_json c) = Inr (Some (JStr (question c)))"
  by (simp add: cell_json_def)

lemma flatSaved_board_json:
  "flatSaved (board_json b) = Inr (map (\<lambda>c. Some (JStr (question c))) (concat b))"
proof -
  have "flat (map (\<lambda>r. JArr (map cell_json r)) b) = map cell_json (concat b)"
    by (simp add: flat_rows map_concat)
  moreover have "map_throwing get_question (map cell_json xs)
                 = Inr (map (\<lambda>c. Some (JStr (question c))) xs)" for xs
    by (induction xs) (simp_all add: get_question_cell)
  ultimately show ?thesis by (simp add: flatSaved_def board_json_def)
qed

lemma board_json_inject: "board_json b = board_json b' \<longleftrightarrow> b = b'"
proof -
  have "inj cell_json"
    by (rule injI) (simp add: cell_json_def)
  then have "inj (\<lambda>r. JArr (map cell_json r))"
    by (auto simp: inj_on_def)
  then show ?thesis
    by (auto simp: board_json_def inj_map_eq_map)
qed

lemma questions_match_nth:
  "questions_match qs fs \<longleftrightarrow> (\<forall>i<length qs. i < length fs \<and> fs ! i = Some (JStr (qs ! i)))"
  by (auto simp: questions_match_def list_all_enumerate js_index_def)

lemma questions_match_take:
  "questions_match qs fs
   \<longleftrightarrow> length qs \<le> length fs \<and> take (length qs) fs = map (\<lambda>q. Some (JStr q)) qs"
proof (cases "length qs \<le> length fs")
  case True
  then show ?thesis by (auto simp: questions_match_nth list_eq_iff_nth_eq)
next
  case False
  then have "length fs < length qs" by simp
  then show ?thesis by (auto simp: questions_match_nth)
qed

lemma fresh_cell_in:
  "row * 5 + col < length catalog \<Longrightarrow>
   fresh_cell catalog row col
   = Inr \<lparr>question = q_question (catalog ! (row * 5 + col)), checked = False\<rparr>"
  by (simp add: fresh_cell_def js_index_def del: of_nat_add of_nat_mult)

lemma fresh_board_25:
  assumes "length catalog = 25"
  shows "fresh_board catalog = Inr (fresh_grid catalog)"
  unfolding fresh_board_def fresh_grid_def
proof (rule map_throwing_total)
  fix row assume "row \<in> set [0..<5]"
  then have row: "row < 5" by simp
  show "map_throwing (fresh_cell catalog row) [0..<5] =
        Inr (map (\<lambda>col. \<lparr>question = q_question (catalog ! (row * 5 + col)), checked = False\<rparr>)
                 [0..<5])"
  proof (rule map_throwing_total)
    fix col assume "col \<in> set [0..<5]"
    then have "row * 5 + col < length catalog" using row assms by simp
    then show "fresh_cell catalog row col
               = Inr \<lparr>question = q_question (catalog ! (row * 5 + col)), checked = False\<rparr>"
      by (rule fresh_cell_in)
  qed
qed

lemma concat_fresh_grid:
  "concat (fresh_grid catalog)
   = map (\<lambda>i. \<lparr>question = q_question (catalog ! i), checked = False\<rparr>) [0..<25]"
  using concat_grid[of "\<lambda>i. \<lparr>question = q_question (catalog ! i), checked = False\<rparr>" 5 5]
  by (simp add: fresh_grid_def)

lemma fresh_grid_questions:
  assumes "length catalog = 25"
  shows "map question (concat (fresh_grid catalog)) = map q_question catalog"
proof -
  have "map question (concat (fresh_grid catalog)) = map (\<lambda>i. q_question (catalog ! i)) [0..<25]"
    by (simp add: concat_fresh_grid comp_def)
  also have "\<dots> = map q_question (map (\<lambda>i. catalog ! i) [0..<length catalog])"
    by (simp only: assms map_map comp_def)
  also have "\<dots> = map q_question catalog"
    by (simp only: map_nth)
  finally show ?thesis .
qed

lemma fresh_grid_shape:
  "length (fresh_grid catalog) = 5"
  "row < 5 \<Longrightarrow> length (fresh_grid catalog ! row) = 5"
  "row < 5 \<Longrightarrow> col < 5 \<Longrightarrow>
     fresh_grid catalog ! row ! col
     = \<lparr>question = q_question (catalog ! (row * 5 + col)), checked = False\<rparr>"
  by (simp_all add: fresh_grid_def)

lemma getInitialBoard_fallback:
  assumes "length catalog = 25" "saved_board JSON_parse catalog saved = None"
  shows "getInitialBoard JSON_parse catalog saved = Inr (board_json (fresh_grid catalog))"
  by (simp add: getInitialBoard_def assms fresh_board_25)

lemma saved_board_Some:
  assumes "saved_board JSON_parse catalog saved = Some v"
  shows "\<exists>fs. flatSaved v = Inr fs \<and> questions_match (map q_question catalog) fs"
  using assms
  by (auto simp: saved_board_def split: option.splits if_splits sum.splits)

lemma saved_board_board_json:
  assumes "s \<noteq> []" "JSON_parse s = Some (board_json b)"
    and "take (length catalog) (map question (concat b)) = map q_question catalog"
    and "length catalog \<le> length (concat b)"
  shows "saved_board JSON_parse catalog (Some s) = Some (board_json b)"
proof -
  have "take (length catalog) (map (\<lambda>c. Some (JStr (question c))) (concat b))
        = map (\<lambda>q. Some (JStr q)) (take (length catalog) (map question (concat b)))"
    by (simp add: take_map comp_def)
  then have "questions_match (map q_question catalog)
               (map (\<lambda>c. Some (JStr (question c))) (concat b))"
    using assms(3,4) by (simp add: questions_match_take comp_def)
  then show ?thesis
    using assms(1,2) by (simp add: saved_board_def flatSaved_board_json)
qed

lemma getInitialBoard_total:
  assumes "length catalog = 25"
  shows "\<exists>v fs. getInitialBoard JSON_parse catalog saved = Inr v \<and> flatSaved v = Inr fs
           \<and> take 25 fs = map (\<lambda>q. Some (JStr (q_question q))) catalog"
proof (cases "saved_board JSON_parse catalog saved")
  case None
  have "map (\<lambda>c. Some (JStr (question c))) (concat (fresh_grid catalog))
        = map (\<lambda>q. Some (JStr q)) (map question (concat (fresh_grid catalog)))"
    by (simp add: comp_def)
  also have "\<dots> = map (\<lambda>q. Some (JStr (q_question q))) catalog"
    by (simp add: fresh_grid_questions assms comp_def)
  finally show ?thesis
    using None assms by (simp add: getInitialBoard_fallback flatSaved_board_json)
next
  case (Some v)
  then obtain fs where fs: "flatSaved v = Inr fs" "questions_match (map q_question catalog) fs"
    using saved_board_Some by blast
  then have "take 25 fs = map (\<lambda>q. Some (JStr (q_question q))) catalog"
    using assms by (simp add: questions_match_take comp_def)
  then show ?thesis
    using Some fs by (simp add: getInitialBoard_def)
qed

section \<open>Properties of the toggle\<close>

lemma toggle_checked_length [simp]: "length (toggle_checked row col b) = length b"
  by (simp add: toggle_checked_def)

lemma toggle_checked_row_length [simp]:
  "i < length b \<Longrightarrow> length (toggle_checked row col b ! i) = length (b ! i)"
  by (simp add: toggle_checked_def)

lemma toggle_checked_nth:
  "i < length b \<Longrightarrow> j < length (b ! i) \<Longrightarrow>
   toggle_checked row col b ! i ! j =
     (if int i = row \<and> int j = col then (b ! i ! j)\<lparr>checked := \<not> checked (b ! i ! j)\<rparr>
      else b ! i ! j)"
  by (simp add: toggle_checked_def)

lemma toggle_checked_questions:
  "map (map question) (toggle_checked row col b) = map (map question) b"
  by (auto simp: list_eq_iff_nth_eq toggle_checked_nth)

lemma toggle_checked_twice: "toggle_checked row col (toggle_checked row col b) = b"
  by (auto simp: list_eq_iff_nth_eq toggle_checked_nth)

lemma handler_questions:
  "map question (concat (st_board (onModalCheckHandler st))) = map question (concat (st_board st))"
proof -
  have "map question (concat b) = concat (map (map question) b)" for b :: Board
    by (simp add: map_concat)
  then show ?thesis
    by (simp add: onModalCheckHandler_def toggle_checked_questions)
qed

section \<open>Properties of the sample inputs\<close>

lemma example_catalog_length: "length example_catalog = 25"
  by (simp add: example_catalog_def)

lemma extra_row_loaded:
  "getInitialBoard (example_parse (board_json extra_row_board)) example_catalog (Some ''saved'')
     = Inr (board_json extra_row_board)"
proof -
  have q: "map question (concat (fresh_grid example_catalog)) = map q_question example_catalog"
    by (rule fresh_grid_questions[OF example_catalog_length])
  have l: "length (concat (fresh_grid example_catalog)) = 25"
    by (simp add: concat_fresh_grid)
  have "saved_board (example_parse (board_json extra_row_board)) example_catalog (Some ''saved'')
        = Some (board_json extra_row_board)"
    by (rule saved_board_board_json)
       (simp_all add: example_parse_def extra_row_board_def example_catalog_length q l)
  then show ?thesis by (simp add: getInitialBoard_def)
qed

lemma concat_extra_cell_board:
  "concat extra_cell_board
   = concat (fresh_grid example_catalog) @ [\<lparr>question = ''extra'', checked = True\<rparr>]"
proof -
  have "fresh_grid example_catalog \<noteq> []"
    using fresh_grid_shape(1)[of example_catalog] by auto
  then have "fresh_grid example_catalog
             = butlast (fresh_grid example_catalog) @ [last (fresh_grid example_catalog)]"
    by simp
  then have "concat (fresh_grid example_catalog)
             = concat (butlast (fresh_grid example_catalog)) @ last (fresh_grid example_catalog)"
    by (metis concat.simps(1) concat.simps(2) concat_append append_Nil2)
  then show ?thesis by (simp add: extra_cell_board_def)
qed

lemma extra_cell_loaded:
  "getInitialBoard (example_parse (board_json extra_cell_board)) example_catalog (Some ''saved'')
     = Inr (board_json extra_cell_board)"
proof -
  have q: "map question (concat (fresh_grid example_catalog)) = map q_question example_catalog"
    by (rule fresh_grid_questions[OF example_catalog_length])
  have l: "length (concat (fresh_grid example_catalog)) = 25"
    by (simp add: concat_fresh_grid)
  have "saved_board (example_parse (board_json extra_cell_board)) example_catalog (Some ''saved'')
        = Some (board_json extra_cell_board)"
    by (rule saved_board_board_json)
       (simp_all add: example_parse_def concat_extra_cell_board example_catalog_length q l)
  then show ?thesis by (simp add: getInitialBoard_def)
qed

lemma checked_grid_questions:
  "map question (concat checked_grid) = map q_question example_catalog"
proof -
  have "map question (concat checked_grid) = map question (concat (fresh_grid example_catalog))"
    by (simp add: checked_grid_def map_concat comp_def)
  then show ?thesis by (simp only: fresh_grid_questions[OF example_catalog_length])
qed

lemma ascii_toLowerCase_Nil: "ascii_toLowerCase s = [] \<longleftrightarrow> s = []"
  by (simp add: ascii_toLowerCase_def)

lemma ascii_examples:
  "ascii_trim ''  '' = []"
  "ascii_trim '' BUDGET '' = ''BUDGET''"
  "ascii_toLowerCase ''BUDGET'' = ''budget''"
  "ascii_toLowerCase ''discuss the budget report'' = ''discuss the budget report''"
  "ascii_toLowerCase ''team lunch'' = ''team lunch''"
  by (simp_all add: ascii_trim_def ascii_toLowerCase_def ascii_space_def)

lemma includes_examples:
  "''discuss the budget report'' = ''discuss the '' @ ''budget'' @ '' report''"
  "\<not> str_includes ''team lunch'' ''budget''"
  by simp_all

section \<open>Substring test\<close>

lemma str_includes_iff: "str_includes s t \<longleftrightarrow> (\<exists>pre suf. s = pre @ t @ suf)"
proof -
  have "str_includes s t \<longleftrightarrow> sublist t s"
    by (induction s) (simp_all add: sublist_Cons_right)
  then show ?thesis by (simp add: sublist_def)
qed

section \<open>Win detector: the lines of the board\<close>

text \<open>
  Claim C1.  On a board of 5 rows of 5 cells, \<open>isBingo\<close> returns without throwing, and it
  returns true exactly when one of the 11 lines is checked in all of its 5 cells: one of the
  rows, one of the columns, the main diagonal (0,0)..(4,4) or the anti-diagonal (0,4)..(4,0).
\<close>

theorem isBingo_lines:
  assumes "length board = 5" "\<forall>r\<in>set board. length r = 5"
  shows "isBingo board =
     Inr ((\<exists>i<5. \<forall>j<5. checked (board ! i ! j)) \<or>
          (\<exists>j<5. \<forall>i<5. checked (board ! i ! j)) \<or>
          (\<forall>i<5. checked (board ! i ! i)) \<or>
          (\<forall>i<5. checked (board ! i ! (4 - i))))"
proof -
  have len: "length (board ! i) = 5" if "i < 5" for i using assms that by simp
  have rows: "(\<exists>i<5. \<forall>j<length (board ! i). checked (board ! i ! j))
      \<longleftrightarrow> (\<exists>i<5. \<forall>j<5. checked (board ! i ! j))"
    using len by auto
  show ?thesis
    unfolding isBingo_def
    by (simp add: rows_loop cols_loop main_diagonal anti_diagonal assms rows)
qed

text \<open>The board whose row 2 alone is checked is a bingo.\<close>

theorem isBingo_lines_witness:
  "length row2_board = 5 \<and> list_all (\<lambda>r. length r = 5) row2_board
   \<and> isBingo row2_board = Inr True"
proof -
  have l: "length row2_board = 5" by (simp add: row2_board_def example_board_def)
  have r: "\<forall>r\<in>set row2_board. length r = 5" by (simp add: row2_board_def example_board_def)
  have line: "\<forall>j<5. checked (row2_board ! 2 ! j)" by (simp add: row2_board_def example_board_def)
  have "\<exists>i<5. \<forall>j<5. checked (row2_board ! i ! j)"
    using line by (intro exI[of _ 2]) simp
  with isBingo_lines[OF l r] have "isBingo row2_board = Inr True" by simp
  with l r show ?thesis by (simp add: list_all_iff)
qed

section \<open>Board store: the question sequence of the loaded board\<close>

text \<open>
  Claim C2, as amended.  With a catalog of 25 questions \<open>getInitialBoard\<close> returns a board for
  every content of the slot, every parser and every parsed value, and the flattened question
  sequence of that board (\<open>flatSaved\<close>) begins with the 25 questions of the catalog; it is the
  catalog's sequence exactly when the board holds 25 cells.  When the loaded value is a grid of
  cells, the first 25 questions of the grid are the catalog's.  The toggle of
  \<open>onModalCheckHandler\<close> leaves the flattened question sequence of any board unchanged.
\<close>

theorem getInitialBoard_question_prefix:
  assumes "length catalog = 25"
  shows "\<exists>v fs. getInitialBoard JSON_parse catalog saved = Inr v \<and> flatSaved v = Inr fs
           \<and> take 25 fs = map (\<lambda>q. Some (JStr (q_question q))) catalog
           \<and> (length fs = 25 \<longrightarrow> fs = map (\<lambda>q. Some (JStr (q_question q))) catalog)
           \<and> (\<forall>b. v = board_json b \<longrightarrow> take 25 (map question (concat b)) = map q_question catalog)
           \<and> (\<forall>st. map question (concat (st_board (onModalCheckHandler st)))
                     = map question (concat (st_board st)))"
proof -
  obtain v fs where v: "getInitialBoard JSON_parse catalog saved = Inr v" "flatSaved v = Inr fs"
      "take 25 fs = map (\<lambda>q. Some (JStr (q_question q))) catalog"
    using getInitialBoard_total[OF assms] by blast
  have "take 25 (map question (concat b)) = map q_question catalog" if "v = board_json b" for b
  proof -
    have "fs = map (\<lambda>c. Some (JStr (question c))) (concat b)"
      using v(2) that by (simp add: flatSaved_board_json)
    then have "map (\<lambda>q. Some (JStr q)) (take 25 (map question (concat b)))
               = map (\<lambda>q. Some (JStr q)) (map q_question catalog)"
      using v(3) by (simp add: take_map comp_def)
    moreover have "inj (\<lambda>q. Some (JStr q))" by (simp add: inj_on_def)
    ultimately show ?thesis by (simp only: inj_map_eq_map)
  qed
  moreover have "fs = map (\<lambda>q. Some (JStr (q_question q))) catalog" if "length fs = 25"
    using v(3) that by simp
  ultimately show ?thesis
    using v by (auto simp: handler_questions)
qed

text \<open>
  Exact equality fails for a stored grid that is longer than the catalog: the comparison of
  \<open>getInitialBoard\<close> runs over the positions of the catalog only.  The fresh grid followed by
  a sixth row is loaded as it is, and its 26 questions are not the 25 of the catalog.
\<close>

theorem getInitialBoard_extra_row_counterexample:
  "length example_catalog = 25
   \<and> getInitialBoard (example_parse (board_json extra_row_board)) example_catalog (Some ''saved'')
       = Inr (board_json extra_row_board)
   \<and> flatSaved (board_json extra_row_board)
       = Inr (map (\<lambda>cell. Some (JStr (question cell))) (concat extra_row_board))
   \<and> length (map question (concat extra_row_board)) = 26
   \<and> map question (concat extra_row_board) \<noteq> map q_question example_catalog"
proof -
  have l: "length (map question (concat extra_row_board)) = 26"
    by (simp add: extra_row_board_def concat_fresh_grid)
  have "map question (concat extra_row_board) \<noteq> map q_question example_catalog"
  proof
    assume "map question (concat extra_row_board) = map q_question example_catalog"
    then have "length (map question (concat extra_row_board))
               = length (map q_question example_catalog)"
      by (rule arg_cong)
    with l show False by (simp add: example_catalog_length)
  qed
  with l show ?thesis
    using extra_row_loaded example_catalog_length by (simp add: flatSaved_board_json)
qed

theorem getInitialBoard_question_prefix_witness:
  "length example_catalog = 25
   \<and> take 25 (map question (concat extra_row_board)) = map q_question example_catalog"
proof -
  obtain v where v:
    "getInitialBoard (example_parse (board_json extra_row_board)) example_catalog (Some ''saved'')
     = Inr v"
    "\<forall>b. v = board_json b \<longrightarrow> take 25 (map question (concat b)) = map q_question example_catalog"
    using getInitialBoard_question_prefix[OF example_catalog_length] by blast
  from v(1) have "v = board_json extra_row_board" by (simp add: extra_row_loaded)
  with v(2) show ?thesis by (simp add: example_catalog_length)
qed

section \<open>Board store: reconciliation\<close>

text \<open>
  Claim C3.  When the slot holds a non-empty text that parses to a 5x5 grid of cells whose
  flattened question sequence is the catalog's, \<open>getInitialBoard\<close> returns that grid
  unchanged: the loaded value is the stored grid, so every cell has the stored checked flag.
\<close>

theorem getInitialBoard_adopts_saved:
  assumes "s \<noteq> []" "JSON_parse s = Some (board_json b)"
    and "length b = 5" "\<forall>r\<in>set b. length r = 5"
    and "map question (concat b) = map q_question catalog"
  shows "getInitialBoard JSON_parse catalog (Some s) = Inr (board_json b)
         \<and> (\<forall>b'. getInitialBoard JSON_parse catalog (Some s) = Inr (board_json b') \<longrightarrow> b' = b)"
proof -
  have "length (map question (concat b)) = length catalog"
    by (simp only: assms(5) length_map)
  then have len: "length catalog = length (concat b)" by simp
  have "saved_board JSON_parse catalog (Some s) = Some (board_json b)"
    using assms(1,2)
  proof (rule saved_board_board_json)
    show "take (length catalog) (map question (concat b)) = map q_question catalog"
      using assms(5) len by simp
    show "length catalog \<le> length (concat b)" using len by simp
  qed
  then have "getInitialBoard JSON_parse catalog (Some s) = Inr (board_json b)"
    by (simp add: getInitialBoard_def)
  then show ?thesis by (simp add: board_json_inject)
qed

theorem getInitialBoard_adopts_saved_witness:
  "''saved'' \<noteq> [] \<and> example_parse (board_json checked_grid) ''saved'' = Some (board_json checked_grid)
   \<and> length checked_grid = 5 \<and> list_all (\<lambda>r. length r = 5) checked_grid
   \<and> map question (concat checked_grid) = map q_question example_catalog
   \<and> getInitialBoard (example_parse (board_json checked_grid)) example_catalog (Some ''saved'')
       = Inr (board_json checked_grid)
   \<and> checked (checked_grid ! 4 ! 4)"
proof -
  have h1: "''saved'' \<noteq> []" by simp
  have h2: "example_parse (board_json checked_grid) ''saved'' = Some (board_json checked_grid)"
    by (simp add: example_parse_def)
  have h3: "length checked_grid = 5" by (simp add: checked_grid_def fresh_grid_def)
  have h4: "\<forall>r\<in>set checked_grid. length r = 5" by (auto simp: checked_grid_def fresh_grid_def)
  have c: "checked (checked_grid ! 4 ! 4)" by (simp add: checked_grid_def fresh_grid_def)
  from getInitialBoard_adopts_saved[where JSON_parse = "example_parse (board_json checked_grid)",
      OF h1 h2 h3 h4 checked_grid_questions] h1 h2 h3 h4 c
  show ?thesis by (simp add: checked_grid_questions list_all_iff)
qed

text \<open>
  Claim C4, as amended.  With a catalog of 25 questions, \<open>getInitialBoard\<close> discards the
  stored value and returns the fresh 5x5 grid (question \<open>row * 5 + col\<close> of the catalog,
  unchecked, at \<open>(row, col)\<close>) when the slot is absent or empty, when its text fails to parse,
  when flattening the parsed value throws, and when the flattened question sequence differs from
  the catalog at one of the catalog's 25 positions (a missing entry differs).  Questions stored
  beyond the 25th are not compared.
\<close>

theorem getInitialBoard_discards:
  assumes "length catalog = 25"
    and "saved = None \<or> saved = Some []
         \<or> (\<exists>s. saved = Some s \<and> JSON_parse s = None)
         \<or> (\<exists>s v. saved = Some s \<and> JSON_parse s = Some v
               \<and> (\<forall>fs. flatSaved v = Inr fs \<longrightarrow>
                     (\<exists>i<25. length fs \<le> i \<or> fs ! i \<noteq> Some (JStr (q_question (catalog ! i))))))"
  shows "\<exists>g. getInitialBoard JSON_parse catalog saved = Inr (board_json g) \<and> length g = 5
           \<and> (\<forall>row<5. length (g ! row) = 5
                 \<and> (\<forall>col<5. g ! row ! col
                       = \<lparr>question = q_question (catalog ! (row * 5 + col)), checked = False\<rparr>))"
proof -
  have "saved_board JSON_parse catalog saved = None"
    using assms(2)
  proof (elim disjE exE conjE)
    fix s v
    assume s: "saved = Some s" "JSON_parse s = Some v"
      and bad: "\<forall>fs. flatSaved v = Inr fs \<longrightarrow>
                  (\<exists>i<25. length fs \<le> i \<or> fs ! i \<noteq> Some (JStr (q_question (catalog ! i))))"
    have "\<not> questions_match (map q_question catalog) fs" if "flatSaved v = Inr fs" for fs
    proof -
      from bad that obtain i where
        "i < 25" "length fs \<le> i \<or> fs ! i \<noteq> Some (JStr (q_question (catalog ! i)))"
        by blast
      then show ?thesis
        using assms(1) by (auto simp: questions_match_nth)
    qed
    then show ?thesis
      using s by (auto simp: saved_board_def split: sum.splits)
  qed (simp_all add: saved_board_def)
  then have "getInitialBoard JSON_parse catalog saved = Inr (board_json (fresh_grid catalog))"
    using assms(1) by (simp add: getInitialBoard_fallback)
  then show ?thesis
    by (intro exI[of _ "fresh_grid catalog"]) (simp add: fresh_grid_shape)
qed

text \<open>
  A stored grid whose flattened question sequence is not the catalog's is not always discarded:
  the fresh grid with a sixth cell in its last row has 26 questions, of which the first 25 are
  the catalog's, and \<open>getInitialBoard\<close> returns it as stored, not the fresh grid.
\<close>

theorem getInitialBoard_keeps_longer_counterexample:
  "length example_catalog = 25
   \<and> example_parse (board_json extra_cell_board) ''saved'' = Some (board_json extra_cell_board)
   \<and> flatSaved (board_json extra_cell_board)
       = Inr (map (\<lambda>cell. Some (JStr (question cell))) (concat extra_cell_board))
   \<and> length (map question (concat extra_cell_board)) = 26
   \<and> map question (concat extra_cell_board) \<noteq> map q_question example_catalog
   \<and> getInitialBoard (example_parse (board_json extra_cell_board)) example_catalog (Some ''saved'')
       = Inr (board_json extra_cell_board)
   \<and> board_json extra_cell_board \<noteq> board_json (fresh_grid example_catalog)"
proof -
  have l: "length (map question (concat extra_cell_board)) = 26"
    by (simp add: concat_extra_cell_board concat_fresh_grid)
  have ne: "map question (concat extra_cell_board) \<noteq> map q_question example_catalog"
  proof
    assume "map question (concat extra_cell_board) = map q_question example_catalog"
    then have "length (map question (concat extra_cell_board))
               = length (map q_question example_catalog)"
      by (rule arg_cong)
    with l show False by (simp add: example_catalog_length)
  qed
  have "extra_cell_board \<noteq> fresh_grid example_catalog"
  proof
    assume "extra_cell_board = fresh_grid example_catalog"
    then have "length (concat extra_cell_board) = length (concat (fresh_grid example_catalog))"
      by simp
    then show False by (simp add: concat_extra_cell_board)
  qed
  then have fresh: "board_json extra_cell_board \<noteq> board_json (fresh_grid example_catalog)"
    by (simp add: board_json_inject)
  have p: "example_parse (board_json extra_cell_board) ''saved'' = Some (board_json extra_cell_board)"
    by (simp add: example_parse_def)
  from l ne fresh p show ?thesis
    using extra_cell_loaded example_catalog_length by (simp add: flatSaved_board_json)
qed

theorem getInitialBoard_discards_witness:
  "length example_catalog = 25
   \<and> example_parse (board_json row2_board) ''saved'' = Some (board_json row2_board)
   \<and> flatSaved (board_json row2_board) = Inr (replicate 25 (Some (JStr [])))
   \<and> replicate 25 (Some (JStr [])) ! 0 \<noteq> Some (JStr (q_question (example_catalog ! 0)))
   \<and> (\<exists>g. getInitialBoard (example_parse (board_json row2_board)) example_catalog (Some ''saved'')
             = Inr (board_json g)
           \<and> g ! 2 ! 0 = \<lparr>question = q_question (example_catalog ! 10), checked = False\<rparr>)"
proof -
  have p: "example_parse (board_json row2_board) ''saved'' = Some (board_json row2_board)"
    by (simp add: example_parse_def)
  have f: "flatSaved (board_json row2_board) = Inr (replicate 25 (Some (JStr [])))"
    by (simp add: flatSaved_board_json row2_board_def example_board_def upt_rec numeral_eq_Suc)
  have d: "replicate 25 (Some (JStr [])) ! 0 \<noteq> Some (JStr (q_question (example_catalog ! 0)))"
    by (simp add: example_catalog_def)
  have "\<exists>s v. Some ''saved'' = Some s \<and> example_parse (board_json row2_board) s = Some v
           \<and> (\<forall>fs. flatSaved v = Inr fs \<longrightarrow>
                 (\<exists>i<25. length fs \<le> i \<or> fs ! i \<noteq> Some (JStr (q_question (example_catalog ! i)))))"
  proof (intro exI[of _ "''saved''"] exI[of _ "board_json row2_board"] conjI allI impI)
    fix fs assume "flatSaved (board_json row2_board) = Inr fs"
    with f have "fs = replicate 25 (Some (JStr []))" by simp
    with d have "fs ! 0 \<noteq> Some (JStr (q_question (example_catalog ! 0)))" by simp
    then show "\<exists>i<25. length fs \<le> i \<or> fs ! i \<noteq> Some (JStr (q_question (example_catalog ! i)))"
      by (intro exI[of _ 0]) simp
  qed (simp_all add: p)
  then obtain g where g:
    "getInitialBoard (example_parse (board_json row2_board)) example_catalog (Some ''saved'')
     = Inr (board_json g)"
    "\<forall>row<5. length (g ! row) = 5
       \<and> (\<forall>col<5. g ! row ! col
             = \<lparr>question = q_question (example_catalog ! (row * 5 + col)), checked = False\<rparr>)"
    using getInitialBoard_discards[OF example_catalog_length,
        of "Some ''saved''" "example_parse (board_json row2_board)"]
    by blast
  from g(2) have "g ! 2 ! 0 = \<lparr>question = q_question (example_catalog ! 10), checked = False\<rparr>"
    by simp
  then show ?thesis
    using g(1) p f d example_catalog_length by blast
qed

section \<open>Board store: toggle\<close>

text \<open>
  Claim C5.  On a 5x5 board, with the modal on a cell \<open>(row, col)\<close> in range,
  \<open>onModalCheckHandler\<close> yields a 5x5 board in which the cell at \<open>(row, col)\<close> has its
  question kept and its checked flag negated, and every other cell is the cell of the input
  board.
\<close>

theorem onModalCheckHandler_flips_one:
  assumes "length (st_board st) = 5" "\<forall>r\<in>set (st_board st). length r = 5"
    and "0 \<le> m_row (st_modal st)" "m_row (st_modal st) \<le> 4"
    and "0 \<le> m_col (st_modal st)" "m_col (st_modal st) \<le> 4"
  shows "length (st_board (onModalCheckHandler st)) = 5
         \<and> (\<forall>i<5. length (st_board (onModalCheckHandler st) ! i) = 5)
         \<and> (\<forall>i<5. \<forall>j<5.
               st_board (onModalCheckHandler st) ! i ! j =
                 (if int i = m_row (st_modal st) \<and> int j = m_col (st_modal st)
                  then \<lparr>question = question (st_board st ! i ! j),
                        checked = \<not> checked (st_board st ! i ! j)\<rparr>
                  else st_board st ! i ! j))"
proof -
  have sentinel: "\<not> (m_row (st_modal st) = - 1 \<or> m_col (st_modal st) = - 1)"
    using assms(3,5) by auto
  then have b: "st_board (onModalCheckHandler st)
                = toggle_checked (m_row (st_modal st)) (m_col (st_modal st)) (st_board st)"
    by (simp add: onModalCheckHandler_def)
  have len: "length (st_board st ! i) = 5" if "i < 5" for i
    using assms(1,2) that by simp
  show ?thesis
    unfolding b using assms(1) len by (simp add: toggle_checked_nth)
qed

theorem onModalCheckHandler_flips_one_witness:
  "length (st_board (example_state row2_board corner_modal)) = 5
   \<and> list_all (\<lambda>r. length r = 5) (st_board (example_state row2_board corner_modal))
   \<and> m_row (st_modal (example_state row2_board corner_modal)) = 0
   \<and> m_col (st_modal (example_state row2_board corner_modal)) = 0
   \<and> st_board (onModalCheckHandler (example_state row2_board corner_modal)) ! 0 ! 0
       = \<lparr>question = [], checked = True\<rparr>
   \<and> st_board (onModalCheckHandler (example_state row2_board corner_modal)) ! 0 ! 2
       = \<lparr>question = [], checked = False\<rparr>"
proof -
  let ?st = "example_state row2_board corner_modal"
  have b: "st_board ?st = row2_board" and r: "m_row (st_modal ?st) = 0" and c: "m_col (st_modal ?st) = 0"
    by (simp_all add: example_state_def corner_modal_def)
  have l: "length (st_board ?st) = 5"
    unfolding b by (simp add: row2_board_def example_board_def)
  have rs: "\<forall>r\<in>set (st_board ?st). length r = 5"
    unfolding b by (simp add: row2_board_def example_board_def)
  have cells: "row2_board ! 0 ! 0 = \<lparr>question = [], checked = False\<rparr>"
    "row2_board ! 0 ! 2 = \<lparr>question = [], checked = False\<rparr>"
    by (simp_all add: row2_board_def example_board_def)
  have "\<forall>i<5. \<forall>j<5.
          st_board (onModalCheckHandler ?st) ! i ! j =
            (if int i = m_row (st_modal ?st) \<and> int j = m_col (st_modal ?st)
             then \<lparr>question = question (st_board ?st ! i ! j), checked = \<not> checked (st_board ?st ! i ! j)\<rparr>
             else st_board ?st ! i ! j)"
    using onModalCheckHandler_flips_one[OF l rs] by (simp add: r c)
  then have "st_board (onModalCheckHandler ?st) ! 0 ! 0 = \<lparr>question = [], checked = True\<rparr>"
    and "st_board (onModalCheckHandler ?st) ! 0 ! 2 = \<lparr>question = [], checked = False\<rparr>"
    by (simp_all add: r c b cells)
  with l rs r c show ?thesis by (simp add: list_all_iff)
qed

text \<open>
  Claim C6.  On a 5x5 board, with the modal on a cell in range, two invocations of
  \<open>onModalCheckHandler\<close> give back the original board.
\<close>

theorem onModalCheckHandler_twice:
  assumes "length (st_board st) = 5" "\<forall>r\<in>set (st_board st). length r = 5"
    and "0 \<le> m_row (st_modal st)" "m_row (st_modal st) \<le> 4"
    and "0 \<le> m_col (st_modal st)" "m_col (st_modal st) \<le> 4"
  shows "st_board (onModalCheckHandler (onModalCheckHandler st)) = st_board st"
proof -
  have "\<not> (m_row (st_modal st) = - 1 \<or> m_col (st_modal st) = - 1)"
    using assms(3,5) by auto
  then show ?thesis
    by (simp add: onModalCheckHandler_def toggle_checked_twice)
qed

theorem onModalCheckHandler_twice_witness:
  "length (st_board (example_state row2_board corner_modal)) = 5
   \<and> list_all (\<lambda>r. length r = 5) (st_board (example_state row2_board corner_modal))
   \<and> m_row (st_modal (example_state row2_board corner_modal)) = 0
   \<and> m_col (st_modal (example_state row2_board corner_modal)) = 0
   \<and> st_board (onModalCheckHandler (onModalCheckHandler (example_state row2_board corner_modal)))
       = row2_board"
proof -
  let ?st = "example_state row2_board corner_modal"
  have b: "st_board ?st = row2_board" and r: "m_row (st_modal ?st) = 0" and c: "m_col (st_modal ?st) = 0"
    by (simp_all add: example_state_def corner_modal_def)
  have l: "length (st_board ?st) = 5"
    unfolding b by (simp add: row2_board_def example_board_def)
  have rs: "\<forall>r\<in>set (st_board ?st). length r = 5"
    unfolding b by (simp add: row2_board_def example_board_def)
  have "st_board (onModalCheckHandler (onModalCheckHandler ?st)) = st_board ?st"
    by (rule onModalCheckHandler_twice[OF l rs]) (simp_all add: r c)
  with l rs r c b show ?thesis by (simp add: list_all_iff)
qed

section \<open>Search filter\<close>

text \<open>
  Claim C7.  For a lower-casing function that maps only the empty string to the empty string,
  a cell is visible exactly when the trimmed query is empty or the lower-cased question contains
  the lower-cased trimmed query as a contiguous run; in particular every cell is visible for a
  query that trims to the empty string.
\<close>

theorem isVisible_iff:
  assumes "\<And>s. toLowerCase s = [] \<longleftrightarrow> s = []"
  shows "(isVisible trim toLowerCase search cell \<longleftrightarrow>
            trim search = []
            \<or> (\<exists>pre suf. toLowerCase (question cell) = pre @ toLowerCase (trim search) @ suf))
         \<and> (trim search = [] \<longrightarrow> isVisible trim toLowerCase search cell)"
  by (auto simp: isVisible_def Let_def str_includes_iff assms)

theorem isVisible_iff_witness:
  "(\<forall>s. ascii_toLowerCase s = [] \<longleftrightarrow> s = [])
   \<and> isVisible ascii_trim ascii_toLowerCase ''  '' \<lparr>question = ''team lunch'', checked = False\<rparr>
   \<and> isVisible ascii_trim ascii_toLowerCase '' BUDGET ''
        \<lparr>question = ''discuss the budget report'', checked = False\<rparr>
   \<and> \<not> isVisible ascii_trim ascii_toLowerCase '' BUDGET ''
        \<lparr>question = ''team lunch'', checked = False\<rparr>"
proof -
  note v = isVisible_iff[of ascii_toLowerCase ascii_trim, OF ascii_toLowerCase_Nil]
  have a: "isVisible ascii_trim ascii_toLowerCase ''  '' \<lparr>question = ''team lunch'', checked = False\<rparr>"
    using v[of "''  ''" "\<lparr>question = ''team lunch'', checked = False\<rparr>"]
    by (simp only: ascii_examples) simp
  have "\<exists>pre suf. ''discuss the budget report'' = pre @ ''budget'' @ suf"
    using includes_examples(1) by blast
  then have b: "isVisible ascii_trim ascii_toLowerCase '' BUDGET ''
        \<lparr>question = ''discuss the budget report'', checked = False\<rparr>"
    using v[of "'' BUDGET ''" "\<lparr>question = ''discuss the budget report'', checked = False\<rparr>"]
    by (simp only: ascii_examples BingoCell.simps) simp
  have "\<not> (\<exists>pre suf. ''team lunch'' = pre @ ''budget'' @ suf)"
    using includes_examples(2) by (simp add: str_includes_iff)
  then have c: "\<not> isVisible ascii_trim ascii_toLowerCase '' BUDGET ''
        \<lparr>question = ''team lunch'', checked = False\<rparr>"
    using v[of "'' BUDGET ''" "\<lparr>question = ''team lunch'', checked = False\<rparr>"]
    by (simp only: ascii_examples BingoCell.simps) simp
  from a b c show ?thesis by (simp only: ascii_toLowerCase_Nil) simp
qed

section \<open>Theme store\<close>

text \<open>
  Claim C8.  Two clicks on the theme control return the theme to its starting value, and after
  the first and after the second click the slot \<open>THEME_KEY\<close> holds the string of the theme
  in memory.
\<close>

theorem click_theme_toggle_twice:
  "st_theme (fst (click_theme_toggle (click_theme_toggle (st, store)))) = st_theme st
   \<and> snd (click_theme_toggle (st, store)) THEME_KEY
       = Some (theme_string (st_theme (fst (click_theme_toggle (st, store)))))
   \<and> snd (click_theme_toggle (click_theme_toggle (st, store))) THEME_KEY
       = Some (theme_string (st_theme (fst (click_theme_toggle (click_theme_toggle (st, store))))))"
  by (cases "st_theme st")
     (simp_all add: click_theme_toggle_def onThemeToggleHandler_def theme_effect_def Let_def)

theorem click_theme_toggle_twice_witness:
  "st_theme (fst (click_theme_toggle (click_theme_toggle (example_state row2_board closed_modal, Map.empty)))) = light
   \<and> snd (click_theme_toggle (example_state row2_board closed_modal, Map.empty)) THEME_KEY = Some ''dark''"
proof -
  have t: "st_theme (example_state row2_board closed_modal) = light"
    by (simp add: example_state_def)
  have "st_theme (fst (click_theme_toggle (example_state row2_board closed_modal, Map.empty))) = dark"
    by (simp add: click_theme_toggle_def onThemeToggleHandler_def Let_def t)
  with click_theme_toggle_twice[of "example_state row2_board closed_modal" Map.empty] t
  show ?thesis by simp
qed

section \<open>Win detector: the two revisions\<close>

text \<open>
  Claim C9.  The win detector of the earlier revision and the one of the later revision return
  the same result on every board, of any shape: the same boolean, or the same exception.
\<close>

theorem isBingo_revisions_agree: "isBingo_rev1 board = isBingo board"
  by (simp add: isBingo_rev1_def isBingo_def)

theorem isBingo_revisions_agree_witness:
  "isBingo_rev1 row2_board = Inr True \<and> isBingo row2_board = Inr True"
proof -
  have "isBingo row2_board = Inr True" by code_simp
  with isBingo_revisions_agree[of row2_board] show ?thesis by simp
qed

section \<open>Check handler without a selected cell\<close>

text \<open>
  Claim C10.  When the modal holds the sentinel \<open>-1\<close> as its row or as its column,
  \<open>onModalCheckHandler\<close> returns the state it was given: the board, and everything else, is
  unchanged.
\<close>

theorem onModalCheckHandler_sentinel:
  assumes "m_row (st_modal st) = - 1 \<or> m_col (st_modal st) = - 1"
  shows "onModalCheckHandler st = st \<and> st_board (onModalCheckHandler st) = st_board st"
  using assms by (simp add: onModalCheckHandler_def)

theorem onModalCheckHandler_sentinel_witness:
  "m_row (st_modal (example_state row2_board closed_modal)) = - 1
   \<and> st_board (onModalCheckHandler (example_state row2_board closed_modal)) = row2_board"
proof -
  have r: "m_row (st_modal (example_state row2_board closed_modal)) = - 1"
    by (simp add: example_state_def closed_modal_def)
  then have "m_row (st_modal (example_state row2_board closed_modal)) = - 1
             \<or> m_col (st_modal (example_state row2_board closed_modal)) = - 1" ..
  from onModalCheckHandler_sentinel[OF this] r show ?thesis
    by (simp add: example_state_def)
qed

end
